theory Spec2Isabelle
  imports Complex_Main "HOL-Library.Product_Lexorder"
begin

section \<open>Data model\<close>

text \<open>
  A pandas \<open>Timestamp\<close>, read through the fields the script reads: the calendar day
  (\<open>strftime('%Y-%m-%d')\<close>) and \<open>hour\<close>, \<open>minute\<close>, \<open>second\<close>. The script never
  reads a sub-second field, so none is kept.
\<close>

datatype timestamp =
  Timestamp (year: nat) (month: nat) (day: nat) (hour: nat) (minute: nat) (second: nat)

text \<open>
  One cell of a table. \<open>NA\<close> is the missing value (\<open>NaN\<close>, \<open>None\<close>, \<open>NaT\<close>).
  Python floats are modelled as exact rationals.
\<close>

datatype cell = NA | Num rat | Str string | Time timestamp

section \<open>The time-window test\<close>

text \<open>
  \<^verbatim>\<open>
  def is_within_window(dt, target_h, target_m):
      dt_minutes = dt.hour * 60 + dt.minute + dt.second / 60.0
      target_minutes = target_h * 60 + target_m
      diff = abs(dt_minutes - target_minutes)
      if diff > 12 * 60:
          diff = 24 * 60 - diff
      return diff <= 7.5
  \<close>
  The target hour and minute are Python integers, as \<open>int\<close> delivers them.
\<close>

definition is_within_window :: "timestamp \<Rightarrow> int \<Rightarrow> int \<Rightarrow> bool" where
  "is_within_window dt target_h target_m =
     (let dt_minutes = rat_of_nat (hour dt) * 60 + rat_of_nat (minute dt)
                         + rat_of_nat (second dt) / 60;
          target_minutes = rat_of_int (target_h * 60 + target_m);
          diff = \<bar>dt_minutes - target_minutes\<bar>;
          diff = (if diff > 12 * 60 then 24 * 60 - diff else diff)
      in diff \<le> 15 / 2)"

text \<open>
  Applied to a cell of the \<open>endDateTime\<close> column. On \<open>NaT\<close> every field is \<open>nan\<close>,
  both comparisons are false and the reading is dropped.
\<close>

definition window_test :: "int \<Rightarrow> int \<Rightarrow> cell \<Rightarrow> bool" where
  "window_test target_h target_m c =
     (case c of Time dt \<Rightarrow> is_within_window dt target_h target_m | _ \<Rightarrow> False)"

subsection \<open>The distance as the specification words it\<close>



section \<open>Strings\<close>

text \<open>
  \<open>str.lower()\<close>, \<open>x in s\<close>, \<open>str.split(':')\<close> and \<open>int(s)\<close> on ASCII text.
\<close>

definition lower_char :: "char \<Rightarrow> char" where
  "lower_char c =
     (case map_of (zip ''ABCDEFGHIJKLMNOPQRSTUVWXYZ'' ''abcdefghijklmnopqrstuvwxyz'') c of
        Some l \<Rightarrow> l
      | None \<Rightarrow> c)"

definition lower :: "string \<Rightarrow> string" where
  "lower s = map lower_char s"

fun py_in :: "string \<Rightarrow> string \<Rightarrow> bool" where
  "py_in pat [] = (pat = [])"
| "py_in pat (c # cs) = (take (length pat) (c # cs) = pat \<or> py_in pat cs)"

fun split_on :: "char \<Rightarrow> string \<Rightarrow> string list" where
  "split_on d [] = [[]]"
| "split_on d (c # cs) =
     (if c = d then [] # split_on d cs
      else (case split_on d cs of [] \<Rightarrow> [[c]] | p # ps \<Rightarrow> (c # p) # ps))"

definition is_space :: "char \<Rightarrow> bool" where
  "is_space c =
     (let n = (of_char c :: nat) in n = 32 \<or> (9 \<le> n \<and> n \<le> 13) \<or> (28 \<le> n \<and> n \<le> 31))"

definition is_digit :: "char \<Rightarrow> bool" where
  "is_digit c = (let n = (of_char c :: nat) in 48 \<le> n \<and> n \<le> 57)"

definition strip :: "string \<Rightarrow> string" where
  "strip s = rev (dropWhile is_space (rev (dropWhile is_space s)))"

text \<open>
  The digits of an integer literal: decimal digits, with single underscores allowed
  between two digits.
\<close>

fun digits_ok :: "string \<Rightarrow> bool" where
  "digits_ok [] = False"
| "digits_ok [c] = is_digit c"
| "digits_ok (c # d # cs) =
     (is_digit c \<and> (if d = CHR ''_'' then digits_ok cs else digits_ok (d # cs)))"

definition digits_val :: "string \<Rightarrow> nat" where
  "digits_val s = foldl (\<lambda>n c. 10 * n + (of_char c - 48)) 0 (filter is_digit s)"

definition py_int :: "string \<Rightarrow> int option" where
  "py_int s =
     (let t = strip s;
          (neg, ds) = (case t of
                         c # cs \<Rightarrow> if c = CHR ''-'' then (True, cs)
                                   else if c = CHR ''+'' then (False, cs) else (False, t)
                       | [] \<Rightarrow> (False, t))
      in if digits_ok ds
         then Some (if neg then - int (digits_val ds) else int (digits_val ds))
         else None)"

text \<open>
  \<^verbatim>\<open>target_hour, target_minute = map(int, timeutc.split(':'))\<close>
  raises \<open>ValueError\<close> unless the split has exactly two parts and both are integers.
\<close>

definition parse_timeutc :: "string \<Rightarrow> (int \<times> int) option" where
  "parse_timeutc timeutc =
     (case split_on CHR '':'' timeutc of
        [a, b] \<Rightarrow> (case py_int a of
                     None \<Rightarrow> None
                   | Some h \<Rightarrow> (case py_int b of None \<Rightarrow> None | Some m \<Rightarrow> Some (h, m)))
      | _ \<Rightarrow> None)"

text \<open>
  The clock time that \<open>pd.to_datetime(..., format='%Y-%m-%d %H:%M')\<close> reads from the
  text appended after the day: the blank of the format takes any run of white space,
  \<open>%H\<close> is one or two digits below 24, \<open>%M\<close> one or two digits below 60, and nothing
  may follow.
\<close>

definition digits12 :: "string \<Rightarrow> bool" where
  "digits12 s = ((length s = 1 \<or> length s = 2) \<and> list_all is_digit s)"

definition strptime_HM :: "string \<Rightarrow> (nat \<times> nat) option" where
  "strptime_HM timeutc =
     (case split_on CHR '':'' (dropWhile is_space timeutc) of
        [a, b] \<Rightarrow> if digits12 a \<and> digits12 b \<and> digits_val a < 24 \<and> digits_val b < 60
                  then Some (digits_val a, digits_val b) else None
      | _ \<Rightarrow> None)"

section \<open>Tables\<close>

datatype dtype = Number | Object | Datetime | Boolean

type_synonym row = "(string \<times> cell) list"

record frame =
  columns :: "(string \<times> dtype) list"
  rows :: "row list"

definition colnames :: "frame \<Rightarrow> string list" where
  "colnames f = map fst (columns f)"

definition cell_of :: "row \<Rightarrow> string \<Rightarrow> cell" where
  "cell_of r c = (case map_of r c of Some v \<Rightarrow> v | None \<Rightarrow> NA)"

definition set_cell :: "string \<Rightarrow> cell \<Rightarrow> row \<Rightarrow> row" where
  "set_cell c v r =
     (if c \<in> set (map fst r) then map (\<lambda>(k, x). if k = c then (k, v) else (k, x)) r
      else r @ [(c, v)])"

definition set_dtype :: "string \<Rightarrow> dtype \<Rightarrow> (string \<times> dtype) list \<Rightarrow> (string \<times> dtype) list" where
  "set_dtype c t cols =
     (if c \<in> set (map fst cols) then map (\<lambda>(k, x). if k = c then (k, t) else (k, x)) cols
      else cols @ [(c, t)])"

definition dtype_of :: "frame \<Rightarrow> string \<Rightarrow> dtype" where
  "dtype_of f c = (case map_of (columns f) c of Some t \<Rightarrow> t | None \<Rightarrow> Object)"

section \<open>Exceptions and the outside world\<close>

datatype exn =
  ValueError string | KeyError string | TypeError string | OSError string | Failure string

datatype bval = Table frame | Text string

type_synonym dataset = "(string \<times> bval) list"

datatype download = Raises exn | NonDict | Bundle dataset

record request =
  dpid :: string
  site :: string
  startdate :: string
  enddate :: string
  release :: string
  package :: string
  check_size :: bool
  token :: "string option"

text \<open>
  What the script cannot decide itself: the answer of \<open>nu.load_by_product\<close> to a request,
  the environment variable \<open>NEON_TOKEN\<close>, whether a path can be opened for writing, and
  what \<open>pd.to_datetime\<close> makes of a cell that is not a timestamp already
  (\<open>None\<close>: it raises; \<open>Some None\<close>: \<open>NaT\<close>).
\<close>

record env =
  load_by_product :: "request \<Rightarrow> download"
  neon_token :: "string option"
  writable :: "string \<Rightarrow> bool"
  parse_datetime :: "cell \<Rightarrow> timestamp option option"

datatype content = Citations "bval list" | Csv frame

text \<open>A printed line: the format string of the \<open>print\<close> and its arguments.\<close>

datatype line =
    Error_downloading_data exn
  | Both_products_summarized
  | Processing_site string "string \<times> string \<times> string"
  | Error_processing_site string exn
  | All_sites_processed

record world =
  files :: "string \<rightharpoonup> content"
  stdout :: "line list"
  requests :: "request list"

datatype outcome = Returned | Raised exn

section \<open>Table operations\<close>

fun mapM :: "('a \<Rightarrow> exn + 'b) \<Rightarrow> 'a list \<Rightarrow> exn + 'b list" where
  "mapM f [] = Inr []"
| "mapM f (x # xs) =
     (case f x of
        Inl e \<Rightarrow> Inl e
      | Inr y \<Rightarrow> (case mapM f xs of Inl e \<Rightarrow> Inl e | Inr ys \<Rightarrow> Inr (y # ys)))"

text \<open>
  \<open>pd.to_datetime\<close> on one cell: a timestamp and the missing value pass through, anything
  else goes to the parser, whose failure raises.
\<close>

definition to_datetime_cell :: "env \<Rightarrow> cell \<Rightarrow> exn + cell" where
  "to_datetime_cell e c =
     (case c of
        Time t \<Rightarrow> Inr (Time t)
      | NA \<Rightarrow> Inr NA
      | _ \<Rightarrow> (case parse_datetime e c of
                None \<Rightarrow> Inl (ValueError ''to_datetime'')
              | Some None \<Rightarrow> Inr NA
              | Some (Some t) \<Rightarrow> Inr (Time t)))"

text \<open>\<^verbatim>\<open>df[c] = pd.to_datetime(df[c])\<close>; a missing column is a \<open>KeyError\<close>.\<close>

definition to_datetime_column :: "env \<Rightarrow> string \<Rightarrow> frame \<Rightarrow> exn + frame" where
  "to_datetime_column e c f =
     (if c \<notin> set (colnames f) then Inl (KeyError c)
      else (case mapM (\<lambda>r. case to_datetime_cell e (cell_of r c) of
                              Inl x \<Rightarrow> Inl x
                            | Inr v \<Rightarrow> Inr (set_cell c v r)) (rows f) of
              Inl x \<Rightarrow> Inl x
            | Inr rs \<Rightarrow> Inr \<lparr>columns = set_dtype c Datetime (columns f), rows = rs\<rparr>))"

definition s2locs :: "string list" where
  "s2locs = [''102'', ''110'', ''112'', ''132'']"

text \<open>
  \<^verbatim>\<open>endDateTime.dt.strftime('%Y-%m-%d') + f' {timeutc}'\<close> read back with
  \<^verbatim>\<open>format='%Y-%m-%d %H:%M'\<close>: the day of the reading with the clock time of
  \<open>timeutc\<close>; text that does not fit the format raises.
\<close>

definition synthetic_date :: "string \<Rightarrow> cell \<Rightarrow> exn + cell" where
  "synthetic_date timeutc c =
     (case c of
        Time dt \<Rightarrow> (case strptime_HM timeutc of
                      None \<Rightarrow> Inl (ValueError timeutc)
                    | Some (h, m) \<Rightarrow> Inr (Time (Timestamp (year dt) (month dt) (day dt) h m 0)))
      | _ \<Rightarrow> Inr NA)"

text \<open>
  Lines 86 to 120 of the script: the readings of the four S2 positions, \<open>endDateTime\<close>
  as timestamps, the readings inside the window, and the new column \<open>date\<close>.
\<close>

definition waq_filtered :: "env \<Rightarrow> string \<Rightarrow> int \<Rightarrow> int \<Rightarrow> frame \<Rightarrow> exn + frame" where
  "waq_filtered e timeutc target_hour target_minute waq =
     (if ''horizontalPosition'' \<notin> set (colnames waq) then Inl (KeyError ''horizontalPosition'')
      else
        let waq1 = waq\<lparr>rows := filter (\<lambda>r. cell_of r ''horizontalPosition'' \<in> set (map Str s2locs))
                                  (rows waq)\<rparr>
        in (case to_datetime_column e ''endDateTime'' waq1 of
              Inl x \<Rightarrow> Inl x
            | Inr waq2 \<Rightarrow>
                let kept = filter (\<lambda>r. window_test target_hour target_minute
                                          (cell_of r ''endDateTime'')) (rows waq2)
                in (case mapM (\<lambda>r. case synthetic_date timeutc (cell_of r ''endDateTime'') of
                                      Inl x \<Rightarrow> Inl x
                                    | Inr d \<Rightarrow> Inr (set_cell ''date'' d r)) kept of
                      Inl x \<Rightarrow> Inl x
                    | Inr rs \<Rightarrow>
                        Inr \<lparr>columns = set_dtype ''date'' Datetime (columns waq2), rows = rs\<rparr>)))"

subsection \<open>Daily aggregation\<close>

definition metadata_cols :: "string list" where
  "metadata_cols = [''domainID'', ''siteID'', ''horizontalPosition'', ''release'']"

definition existing_meta :: "frame \<Rightarrow> string list" where
  "existing_meta f = filter (\<lambda>c. c \<in> set (colnames f)) metadata_cols"

definition numeric_cols :: "frame \<Rightarrow> string list" where
  "numeric_cols f =
     filter (\<lambda>c. c \<notin> set (existing_meta f))
       (map fst (filter (\<lambda>(c, t). t = Number) (columns f)))"

text \<open>
  The two reductions of pandas used by the script. \<open>'mean'\<close> is the sum of the values
  that are not missing over their number, and missing when there is none. \<open>'first'\<close> is
  the first value of the group that is not missing (\<open>GroupBy.first\<close> skips missing
  values), and missing when there is none.
\<close>

definition nums :: "cell list \<Rightarrow> rat list" where
  "nums cs = List.map_filter (\<lambda>c. case c of Num x \<Rightarrow> Some x | _ \<Rightarrow> None) cs"

definition agg_mean :: "cell list \<Rightarrow> cell" where
  "agg_mean cs =
     (let xs = nums cs in if xs = [] then NA else Num (sum_list xs / rat_of_nat (length xs)))"

definition agg_first :: "cell list \<Rightarrow> cell" where
  "agg_first cs = (case filter (\<lambda>c. c \<noteq> NA) cs of [] \<Rightarrow> NA | v # _ \<Rightarrow> v)"

definition ts_key :: "timestamp \<Rightarrow> nat \<times> nat \<times> nat \<times> nat \<times> nat \<times> nat" where
  "ts_key t = (year t, month t, day t, hour t, minute t, second t)"

text \<open>The group keys: the distinct values of \<open>date\<close>, ascending; a missing key is dropped.\<close>

definition group_keys :: "frame \<Rightarrow> timestamp list" where
  "group_keys f =
     sort_key ts_key
       (remdups (List.map_filter (\<lambda>r. case cell_of r ''date'' of Time t \<Rightarrow> Some t | _ \<Rightarrow> None)
                   (rows f)))"

definition group_rows :: "frame \<Rightarrow> timestamp \<Rightarrow> row list" where
  "group_rows f k = filter (\<lambda>r. cell_of r ''date'' = Time k) (rows f)"

text \<open>
  \<^verbatim>\<open>groupby('date', as_index=False).agg(agg_map)\<close> with \<open>agg_map\<close> the numeric
  columns under \<open>'mean'\<close> followed by the metadata columns under \<open>'first'\<close>. An empty
  \<open>agg_map\<close> raises (\<open>No objects to concatenate\<close>).
\<close>

definition groupby_date_agg :: "frame \<Rightarrow> string list \<Rightarrow> string list \<Rightarrow> exn + frame" where
  "groupby_date_agg f numeric meta =
     (if numeric = [] \<and> meta = [] then Inl (ValueError ''No objects to concatenate'')
      else Inr
        \<lparr>columns = (''date'', Datetime) # map (\<lambda>c. (c, Number)) numeric
                      @ map (\<lambda>c. (c, dtype_of f c)) meta,
         rows = map (\<lambda>k. (''date'', Time k)
                            # map (\<lambda>c. (c, agg_mean (map (\<lambda>r. cell_of r c) (group_rows f k)))) numeric
                            @ map (\<lambda>c. (c, agg_first (map (\<lambda>r. cell_of r c) (group_rows f k)))) meta)
                  (group_keys f)\<rparr>)"

text \<open>\<^verbatim>\<open>df[cols]\<close>: the listed columns in the listed order.\<close>

definition select_columns :: "string list \<Rightarrow> frame \<Rightarrow> exn + frame" where
  "select_columns cs f =
     (case filter (\<lambda>c. c \<notin> set (colnames f)) cs of
        c # _ \<Rightarrow> Inl (KeyError c)
      | [] \<Rightarrow> Inr \<lparr>columns = map (\<lambda>c. (c, dtype_of f c)) cs,
                    rows = map (\<lambda>r. map (\<lambda>c. (c, cell_of r c)) cs) (rows f)\<rparr>)"

text \<open>Lines 122 to 134 of the script.\<close>

definition daily_averages :: "frame \<Rightarrow> exn + frame" where
  "daily_averages kept =
     (case groupby_date_agg kept (numeric_cols kept) (existing_meta kept) of
        Inl x \<Rightarrow> Inl x
      | Inr g \<Rightarrow>
          select_columns
            (''date'' # existing_meta kept @ filter (\<lambda>c. c \<in> set (colnames g)) (numeric_cols kept)) g)"

text \<open>Lines 174 to 177: the rows whose hour and minute are the target's.\<close>

definition exact_test :: "int \<Rightarrow> int \<Rightarrow> cell \<Rightarrow> bool" where
  "exact_test target_hour target_minute c =
     (case c of
        Time dt \<Rightarrow> int (hour dt) = target_hour \<and> int (minute dt) = target_minute
      | _ \<Rightarrow> False)"

definition csd_filtered :: "env \<Rightarrow> int \<Rightarrow> int \<Rightarrow> frame \<Rightarrow> exn + frame" where
  "csd_filtered e target_hour target_minute csd =
     (case to_datetime_column e ''endDateTime'' csd of
        Inl x \<Rightarrow> Inl x
      | Inr csd1 \<Rightarrow>
          Inr (csd1\<lparr>rows := filter (\<lambda>r. exact_test target_hour target_minute
                                          (cell_of r ''endDateTime'')) (rows csd1)\<rparr>))"

section \<open>Effects\<close>

definition print_line :: "line \<Rightarrow> world \<Rightarrow> world" where
  "print_line l w = w\<lparr>stdout := stdout w @ [l]\<rparr>"

definition record_request :: "request \<Rightarrow> world \<Rightarrow> world" where
  "record_request rq w = w\<lparr>requests := requests w @ [rq]\<rparr>"

text \<open>Opening a path with mode \<open>"w"\<close> and writing: the old content, if any, is replaced.\<close>

definition write_file :: "env \<Rightarrow> string \<Rightarrow> content \<Rightarrow> world \<Rightarrow> outcome \<times> world" where
  "write_file e path c w =
     (if writable e path then (Returned, w\<lparr>files := (files w)(path \<mapsto> c)\<rparr>)
      else (Raised (OSError path), w))"

text \<open>
  \<^verbatim>\<open>
  citations = [value for key, value in data.items() if 'citation_'+dpnum in key.lower()]
  with open(savepath+siteid+"_citation_"+dpnum+".txt", "w") as citation_file:
      print(citations, file=citation_file)
  \<close>
\<close>

definition citations_of :: "string \<Rightarrow> dataset \<Rightarrow> bval list" where
  "citations_of dpnum data =
     map snd (filter (\<lambda>(key, value). py_in (''citation_'' @ dpnum) (lower key)) data)"

definition citation_path :: "string \<Rightarrow> string \<Rightarrow> string \<Rightarrow> string" where
  "citation_path savepath siteid dpnum = savepath @ siteid @ ''_citation_'' @ dpnum @ ''.txt''"

definition write_citation ::
  "env \<Rightarrow> string \<Rightarrow> string \<Rightarrow> dataset \<Rightarrow> string \<Rightarrow> world \<Rightarrow> outcome \<times> world" where
  "write_citation e dpnum siteid data savepath w =
     write_file e (citation_path savepath siteid dpnum) (Citations (citations_of dpnum data)) w"

text \<open>\<open>data[k]\<close> used as a table.\<close>

definition lookup_table :: "dataset \<Rightarrow> string \<Rightarrow> exn + frame" where
  "lookup_table data k =
     (case map_of data k of
        None \<Rightarrow> Inl (KeyError k)
      | Some (Table f) \<Rightarrow> Inr f
      | Some (Text t) \<Rightarrow> Inl (TypeError k))"

definition product_request :: "env \<Rightarrow> string \<Rightarrow> string \<Rightarrow> string \<Rightarrow> string \<Rightarrow> request" where
  "product_request e product siteid startmonth endmonth =
     \<lparr>dpid = product, site = siteid, startdate = startmonth, enddate = endmonth,
      release = ''RELEASE-2026'', package = ''basic'', check_size = False,
      token = neon_token e\<rparr>"

definition daily_path :: "string \<Rightarrow> string \<Rightarrow> string \<Rightarrow> string" where
  "daily_path savepath siteid dpnum = savepath @ siteid @ ''_daily_'' @ dpnum @ ''.csv''"

text \<open>The body of the first \<open>try\<close> (lines 62 to 137).\<close>

definition waq_try ::
  "env \<Rightarrow> string \<Rightarrow> string \<Rightarrow> string \<Rightarrow> string \<Rightarrow> string \<Rightarrow> int \<Rightarrow> int \<Rightarrow> world
     \<Rightarrow> outcome \<times> world" where
  "waq_try e savepath siteid startmonth endmonth timeutc target_hour target_minute w =
     (let rq = product_request e ''DP1.20288.001'' siteid startmonth endmonth;
          w1 = record_request rq w
      in case load_by_product e rq of
           Raises x \<Rightarrow> (Raised x, w1)
         | NonDict \<Rightarrow> (Returned, w1)
         | Bundle data \<Rightarrow>
             (case write_citation e ''20288'' siteid data savepath w1 of
                (Raised x, w2) \<Rightarrow> (Raised x, w2)
              | (Returned, w2) \<Rightarrow>
                  (case lookup_table data ''waq_instantaneous'' of
                     Inl x \<Rightarrow> (Raised x, w2)
                   | Inr waq \<Rightarrow>
                       (case waq_filtered e timeutc target_hour target_minute waq of
                          Inl x \<Rightarrow> (Raised x, w2)
                        | Inr kept \<Rightarrow>
                            (case daily_averages kept of
                               Inl x \<Rightarrow> (Raised x, w2)
                             | Inr d \<Rightarrow>
                                 write_file e (daily_path savepath siteid ''20288'') (Csv d) w2)))))"

text \<open>The body of the second \<open>try\<close> (lines 145 to 180).\<close>

definition csd_try ::
  "env \<Rightarrow> string \<Rightarrow> string \<Rightarrow> string \<Rightarrow> string \<Rightarrow> int \<Rightarrow> int \<Rightarrow> world \<Rightarrow> outcome \<times> world" where
  "csd_try e savepath siteid startmonth endmonth target_hour target_minute w =
     (let rq = product_request e ''DP4.00130.001'' siteid startmonth endmonth;
          w1 = record_request rq w
      in case load_by_product e rq of
           Raises x \<Rightarrow> (Raised x, w1)
         | NonDict \<Rightarrow> (Returned, w1)
         | Bundle data \<Rightarrow>
             (case write_citation e ''00130'' siteid data savepath w1 of
                (Raised x, w2) \<Rightarrow> (Raised x, w2)
              | (Returned, w2) \<Rightarrow>
                  (case lookup_table data ''csd_15_min'' of
                     Inl x \<Rightarrow> (Raised x, w2)
                   | Inr csd \<Rightarrow>
                       (case csd_filtered e target_hour target_minute csd of
                          Inl x \<Rightarrow> (Raised x, w2)
                        | Inr kept \<Rightarrow>
                            write_file e (daily_path savepath siteid ''00130'') (Csv kept) w2))))"

text \<open>
  \<open>neon_dwnld_sum_daily\<close>: the parse of \<open>timeutc\<close> stands before both \<open>try\<close> blocks, so
  its \<open>ValueError\<close> leaves the function; each \<open>except Exception\<close> prints and returns.
\<close>

definition neon_dwnld_sum_daily ::
  "env \<Rightarrow> string \<Rightarrow> string \<Rightarrow> string \<Rightarrow> string \<Rightarrow> string \<Rightarrow> world \<Rightarrow> outcome \<times> world" where
  "neon_dwnld_sum_daily e savepath siteid startmonth endmonth timeutc w =
     (case parse_timeutc timeutc of
        None \<Rightarrow> (Raised (ValueError timeutc), w)
      | Some (target_hour, target_minute) \<Rightarrow>
          (case waq_try e savepath siteid startmonth endmonth timeutc
                  target_hour target_minute w of
             (Raised x, w1) \<Rightarrow> (Returned, print_line (Error_downloading_data x) w1)
           | (Returned, w1) \<Rightarrow>
               (case csd_try e savepath siteid startmonth endmonth target_hour target_minute w1 of
                  (Raised x, w2) \<Rightarrow> (Returned, print_line (Error_downloading_data x) w2)
                | (Returned, w2) \<Rightarrow> (Returned, print_line Both_products_summarized w2))))"

section \<open>The driver\<close>

type_synonym site_entry = "string \<times> string \<times> string \<times> string"

definition site_inputs :: "site_entry list" where
  "site_inputs =
     [(''LEWI'', ''2023-10'', ''2024-09'', ''16:00''),
      (''COMO'', ''2023-10'', ''2024-09'', ''18:00''),
      (''LECO'', ''2023-10'', ''2024-09'', ''16:00''),
      (''MCRA'', ''2023-10'', ''2024-09'', ''19:00'')]"

definition output_dir :: string where
  "output_dir = ''C:/Users/nickerson/Documents/GitHub/PEP2026/neon_script/data/''"

text \<open>One turn of the loop of \<open>main\<close>, and the loop over a table of sites.\<close>

definition process_site :: "env \<Rightarrow> site_entry \<Rightarrow> world \<Rightarrow> world" where
  "process_site e entry w =
     (case entry of (siteid, startmonth, endmonth, timeutc) \<Rightarrow>
        (let w1 = print_line (Processing_site siteid (startmonth, endmonth, timeutc)) w
         in case neon_dwnld_sum_daily e output_dir siteid startmonth endmonth timeutc w1 of
              (Raised x, w2) \<Rightarrow> print_line (Error_processing_site siteid x) w2
            | (Returned, w2) \<Rightarrow> w2))"

fun run_sites :: "env \<Rightarrow> site_entry list \<Rightarrow> world \<Rightarrow> world" where
  "run_sites e [] w = w"
| "run_sites e (entry # rest) w = run_sites e rest (process_site e entry w)"

definition main :: "env \<Rightarrow> world \<Rightarrow> world" where
  "main e w = print_line All_sites_processed (run_sites e site_inputs w)"

section \<open>The specification's wording and example inputs\<close>


text \<open>An environment where every path can be written and every download is refused.\<close>

definition all_writable :: env where
  "all_writable =
     \<lparr>load_by_product = (\<lambda>rq. NonDict), neon_token = None, writable = (\<lambda>p. True),
      parse_datetime = (\<lambda>c. None)\<rparr>"

definition empty_world :: world where
  "empty_world = \<lparr>files = Map.empty, stdout = [], requests = []\<rparr>"


text \<open>The lines printed by the driver itself.\<close>

definition driver_line :: "line \<Rightarrow> bool" where
  "driver_line l =
     (case l of Processing_site s p \<Rightarrow> True | Error_processing_site s x \<Rightarrow> True | _ \<Rightarrow> False)"

text \<open>
  A small water-quality table: two readings of one day inside the window (the first with
  no \<open>siteID\<close>), one at another position, one outside the window, and a single
  reading on the next day, 7.5 minutes after the target.
\<close>

definition waq_columns :: "(string \<times> dtype) list" where
  "waq_columns =
     [(''domainID'', Object), (''siteID'', Object), (''horizontalPosition'', Object),
      (''endDateTime'', Datetime), (''dissolvedOxygen'', Number), (''pH'', Number),
      (''release'', Object)]"

definition waq_row :: "cell \<Rightarrow> string \<Rightarrow> timestamp \<Rightarrow> cell \<Rightarrow> cell \<Rightarrow> row" where
  "waq_row sid pos t oxygen ph =
     [(''domainID'', Str ''D18''), (''siteID'', sid), (''horizontalPosition'', Str pos),
      (''endDateTime'', Time t), (''dissolvedOxygen'', oxygen), (''pH'', ph),
      (''release'', Str ''RELEASE-2026'')]"

definition waq_example :: frame where
  "waq_example =
     \<lparr>columns = waq_columns,
      rows =
        [waq_row NA ''102'' (Timestamp 2023 10 1 15 55 0) (Num 8) (Num 7),
         waq_row (Str ''LEWI'') ''102'' (Timestamp 2023 10 1 16 0 0) (Num 10) NA,
         waq_row (Str ''LEWI'') ''101'' (Timestamp 2023 10 1 16 1 0) (Num 50) (Num 1),
         waq_row (Str ''LEWI'') ''102'' (Timestamp 2023 10 1 16 20 0) (Num 60) (Num 2),
         waq_row (Str ''LEWI'') ''110'' (Timestamp 2023 10 2 16 7 30) (Num 9) (Num (15 / 2))]\<rparr>"

definition unwritable_csv :: env where
  "unwritable_csv =
     \<lparr>load_by_product =
        (\<lambda>rq. if dpid rq = ''DP1.20288.001''
              then Bundle [(''citation_20288_RELEASE-2026'', Text ''A''),
                           (''waq_instantaneous'', Table waq_example)]
              else NonDict),
      neon_token = None,
      writable = (\<lambda>p. p \<noteq> ''out/LEWI_daily_20288.csv''),
      parse_datetime = (\<lambda>c. None)\<rparr>"

text \<open>
  What the loop of the driver prints itself for one entry of the table, and the
  water-quality request that the entry leads to.
\<close>

definition site_lines :: "site_entry \<Rightarrow> line list" where
  "site_lines entry =
     (case entry of (siteid, startmonth, endmonth, timeutc) \<Rightarrow>
        Processing_site siteid (startmonth, endmonth, timeutc)
        # (if parse_timeutc timeutc = None then [Error_processing_site siteid (ValueError timeutc)]
           else []))"

definition waq_requests :: "env \<Rightarrow> site_entry \<Rightarrow> request list" where
  "waq_requests e entry =
     (case entry of (siteid, startmonth, endmonth, timeutc) \<Rightarrow>
        if parse_timeutc timeutc = None then []
        else [product_request e ''DP1.20288.001'' siteid startmonth endmonth])"

definition is_waq :: "request \<Rightarrow> bool" where
  "is_waq rq = (dpid rq = ''DP1.20288.001'')"

text \<open>A table of sites whose second entry has a target time that does not parse.\<close>

definition sites_with_typo :: "site_entry list" where
  "sites_with_typo =
     [(''LEWI'', ''2023-10'', ''2024-09'', ''16:00''),
      (''COMO'', ''2023-10'', ''2024-09'', ''18h00''),
      (''LECO'', ''2023-10'', ''2024-09'', ''16:00'')]"

text \<open>
  A column that holds timestamps already, as the loader delivers \<open>endDateTime\<close>: its
  dtype is datetime and every row has one value for it, a timestamp or \<open>NaT\<close>. On such a
  column \<open>pd.to_datetime\<close> changes nothing.
\<close>

definition holds_datetimes :: "string \<Rightarrow> frame \<Rightarrow> bool" where
  "holds_datetimes c f =
     (c \<in> set (colnames f)
      \<and> list_all (\<lambda>(k, t). k = c \<longrightarrow> t = Datetime) (columns f)
      \<and> list_all (\<lambda>r. c \<in> set (map fst r)
                       \<and> list_all (\<lambda>(k, x). k = c \<longrightarrow>
                            x = cell_of r c \<and> (case x of NA \<Rightarrow> True | Time t \<Rightarrow> True | _ \<Rightarrow> False)) r)
          (rows f))"

text \<open>A small discharge table, and an environment that delivers both products.\<close>

definition csd_row :: "timestamp \<Rightarrow> rat \<Rightarrow> row" where
  "csd_row t q =
     [(''siteID'', Str ''LEWI''), (''endDateTime'', Time t), (''continuousDischarge'', Num q)]"

definition csd_example :: frame where
  "csd_example =
     \<lparr>columns = [(''siteID'', Object), (''endDateTime'', Datetime), (''continuousDischarge'', Number)],
      rows =
        [csd_row (Timestamp 2023 10 1 15 45 0) 120,
         csd_row (Timestamp 2023 10 1 15 59 0) 121,
         csd_row (Timestamp 2023 10 1 16 0 0) 122,
         csd_row (Timestamp 2023 10 1 16 15 0) 123,
         csd_row (Timestamp 2023 10 2 16 0 0) 130]\<rparr>"

definition both_products :: env where
  "both_products =
     \<lparr>load_by_product =
        (\<lambda>rq. if dpid rq = ''DP1.20288.001''
              then Bundle [(''citation_20288_RELEASE-2026'', Text ''A''),
                           (''waq_instantaneous'', Table waq_example)]
              else Bundle [(''csd_15_min'', Table csd_example),
                           (''citation_00130_RELEASE-2026'', Text ''C'')]),
      neon_token = None,
      writable = (\<lambda>p. True),
      parse_datetime = (\<lambda>c. None)\<rparr>"








section \<open>The time window (C1)\<close>




section \<open>The citation writer (C7)\<close>








section \<open>What the two pipelines touch\<close>

lemma write_file_effects:
  assumes "write_file e p c w = (r, w')"
  shows "stdout w' = stdout w" "requests w' = requests w"
    "\<And>q. q \<noteq> p \<Longrightarrow> files w' q = files w q"
  using assms by (auto simp: write_file_def split: if_splits)

lemma write_citation_effects:
  assumes "write_citation e dpnum siteid data savepath w = (r, w')"
  shows "stdout w' = stdout w" "requests w' = requests w"
    "\<And>q. q \<noteq> citation_path savepath siteid dpnum \<Longrightarrow> files w' q = files w q"
  using assms write_file_effects unfolding write_citation_def by blast+

lemma waq_try_effects:
  assumes "waq_try e savepath siteid startmonth endmonth timeutc th tm w = (r, w')"
  shows "stdout w' = stdout w"
    "requests w' = requests w @ [product_request e ''DP1.20288.001'' siteid startmonth endmonth]"
    "\<And>q. q \<noteq> citation_path savepath siteid ''20288'' \<Longrightarrow>
          q \<noteq> daily_path savepath siteid ''20288'' \<Longrightarrow> files w' q = files w q"
proof -
  let ?rq = "product_request e ''DP1.20288.001'' siteid startmonth endmonth"
  let ?w1 = "record_request ?rq w"
  have w1: "stdout ?w1 = stdout w" "requests ?w1 = requests w @ [?rq]" "files ?w1 = files w"
    by (simp_all add: record_request_def)
  have "stdout w' = stdout w \<and> requests w' = requests w @ [?rq] \<and>
      (\<forall>q. q \<noteq> citation_path savepath siteid ''20288'' \<longrightarrow>
          q \<noteq> daily_path savepath siteid ''20288'' \<longrightarrow> files w' q = files w q)"
  proof (cases "load_by_product e ?rq")
    case (Raises x)
    with assms have "w' = ?w1" by (simp add: waq_try_def Let_def)
    with w1 show ?thesis by simp
  next
    case NonDict
    with assms have "w' = ?w1" by (simp add: waq_try_def Let_def)
    with w1 show ?thesis by simp
  next
    case (Bundle data)
    obtain r2 w2 where wc: "write_citation e ''20288'' siteid data savepath ?w1 = (r2, w2)"
      by (cases "write_citation e ''20288'' siteid data savepath ?w1") auto
    note c = write_citation_effects [OF wc]
    have w2: "stdout w2 = stdout w" "requests w2 = requests w @ [?rq]"
      "\<And>q. q \<noteq> citation_path savepath siteid ''20288'' \<Longrightarrow> files w2 q = files w q"
      using c w1 by simp_all
    have "w' = w2 \<or> (\<exists>d. write_file e (daily_path savepath siteid ''20288'') (Csv d) w2 = (r, w'))"
      using assms Bundle wc
      by (auto simp: waq_try_def Let_def split: outcome.splits sum.splits)
    then show ?thesis
    proof
      assume "w' = w2"
      with w2 show ?thesis by simp
    next
      assume "\<exists>d. write_file e (daily_path savepath siteid ''20288'') (Csv d) w2 = (r, w')"
      then obtain d where "write_file e (daily_path savepath siteid ''20288'') (Csv d) w2 = (r, w')" ..
      note f = write_file_effects [OF this]
      show ?thesis using f w2 by simp
    qed
  qed
  then show "stdout w' = stdout w"
    "requests w' = requests w @ [product_request e ''DP1.20288.001'' siteid startmonth endmonth]"
    "\<And>q. q \<noteq> citation_path savepath siteid ''20288'' \<Longrightarrow>
          q \<noteq> daily_path savepath siteid ''20288'' \<Longrightarrow> files w' q = files w q"
    by blast+
qed

lemma csd_try_effects:
  assumes "csd_try e savepath siteid startmonth endmonth th tm w = (r, w')"
  shows "stdout w' = stdout w"
    "requests w' = requests w @ [product_request e ''DP4.00130.001'' siteid startmonth endmonth]"
    "\<And>q. q \<noteq> citation_path savepath siteid ''00130'' \<Longrightarrow>
          q \<noteq> daily_path savepath siteid ''00130'' \<Longrightarrow> files w' q = files w q"
proof -
  let ?rq = "product_request e ''DP4.00130.001'' siteid startmonth endmonth"
  let ?w1 = "record_request ?rq w"
  have w1: "stdout ?w1 = stdout w" "requests ?w1 = requests w @ [?rq]" "files ?w1 = files w"
    by (simp_all add: record_request_def)
  have "stdout w' = stdout w \<and> requests w' = requests w @ [?rq] \<and>
      (\<forall>q. q \<noteq> citation_path savepath siteid ''00130'' \<longrightarrow>
          q \<noteq> daily_path savepath siteid ''00130'' \<longrightarrow> files w' q = files w q)"
  proof (cases "load_by_product e ?rq")
    case (Raises x)
    with assms have "w' = ?w1" by (simp add: csd_try_def Let_def)
    with w1 show ?thesis by simp
  next
    case NonDict
    with assms have "w' = ?w1" by (simp add: csd_try_def Let_def)
    with w1 show ?thesis by simp
  next
    case (Bundle data)
    obtain r2 w2 where wc: "write_citation e ''00130'' siteid data savepath ?w1 = (r2, w2)"
      by (cases "write_citation e ''00130'' siteid data savepath ?w1") auto
    note c = write_citation_effects [OF wc]
    have w2: "stdout w2 = stdout w" "requests w2 = requests w @ [?rq]"
      "\<And>q. q \<noteq> citation_path savepath siteid ''00130'' \<Longrightarrow> files w2 q = files w q"
      using c w1 by simp_all
    have "w' = w2 \<or> (\<exists>d. write_file e (daily_path savepath siteid ''00130'') (Csv d) w2 = (r, w'))"
      using assms Bundle wc
      by (auto simp: csd_try_def Let_def split: outcome.splits sum.splits)
    then show ?thesis
    proof
      assume "w' = w2"
      with w2 show ?thesis by simp
    next
      assume "\<exists>d. write_file e (daily_path savepath siteid ''00130'') (Csv d) w2 = (r, w')"
      then obtain d where "write_file e (daily_path savepath siteid ''00130'') (Csv d) w2 = (r, w')" ..
      note f = write_file_effects [OF this]
      show ?thesis using f w2 by simp
    qed
  qed
  then show "stdout w' = stdout w"
    "requests w' = requests w @ [product_request e ''DP4.00130.001'' siteid startmonth endmonth]"
    "\<And>q. q \<noteq> citation_path savepath siteid ''00130'' \<Longrightarrow>
          q \<noteq> daily_path savepath siteid ''00130'' \<Longrightarrow> files w' q = files w q"
    by blast+
qed

lemma paths_differ:
  "citation_path savepath siteid ''00130'' \<noteq> citation_path savepath siteid ''20288''"
  "citation_path savepath siteid ''00130'' \<noteq> daily_path savepath siteid ''20288''"
  "daily_path savepath siteid ''00130'' \<noteq> citation_path savepath siteid ''20288''"
  "daily_path savepath siteid ''00130'' \<noteq> daily_path savepath siteid ''20288''"
  "citation_path savepath siteid ''20288'' \<noteq> citation_path savepath siteid ''00130''"
  "citation_path savepath siteid ''20288'' \<noteq> daily_path savepath siteid ''00130''"
  "daily_path savepath siteid ''20288'' \<noteq> citation_path savepath siteid ''00130''"
  "daily_path savepath siteid ''20288'' \<noteq> daily_path savepath siteid ''00130''"
  by (simp_all add: citation_path_def daily_path_def)

section \<open>An exception in the water-quality pipeline (C5)\<close>


lemma parse_16_00: "parse_timeutc ''16:00'' = Some (16, 0)"
  by code_simp



section \<open>A download that is not a mapping (C9)\<close>

text \<open>
  Claim C9. When the water-quality download returns something that is not a mapping,
  without raising, the first \<open>try\<close> writes nothing and prints nothing, the function
  goes on to request the discharge product, and the only line printed is the one of the
  discharge stage; the two \<open>20288\<close> files are as before the call.
\<close>

theorem non_mapping_download_proceeds_to_discharge:
  assumes "parse_timeutc timeutc = Some (th, tm)"
    and "load_by_product e (product_request e ''DP1.20288.001'' siteid startmonth endmonth) = NonDict"
  shows "waq_try e savepath siteid startmonth endmonth timeutc th tm w =
           (Returned, record_request (product_request e ''DP1.20288.001'' siteid startmonth endmonth) w)
       \<and> neon_dwnld_sum_daily e savepath siteid startmonth endmonth timeutc w =
           (Returned,
            print_line
              (case fst (csd_try e savepath siteid startmonth endmonth th tm
                           (record_request (product_request e ''DP1.20288.001'' siteid startmonth endmonth) w)) of
                 Raised x \<Rightarrow> Error_downloading_data x
               | Returned \<Rightarrow> Both_products_summarized)
              (snd (csd_try e savepath siteid startmonth endmonth th tm
                      (record_request (product_request e ''DP1.20288.001'' siteid startmonth endmonth) w))))
       \<and> requests (snd (neon_dwnld_sum_daily e savepath siteid startmonth endmonth timeutc w)) =
           requests w @ [product_request e ''DP1.20288.001'' siteid startmonth endmonth,
                         product_request e ''DP4.00130.001'' siteid startmonth endmonth]
       \<and> files (snd (neon_dwnld_sum_daily e savepath siteid startmonth endmonth timeutc w))
           (citation_path savepath siteid ''20288'') = files w (citation_path savepath siteid ''20288'')
       \<and> files (snd (neon_dwnld_sum_daily e savepath siteid startmonth endmonth timeutc w))
           (daily_path savepath siteid ''20288'') = files w (daily_path savepath siteid ''20288'')
       \<and> length (stdout (snd (neon_dwnld_sum_daily e savepath siteid startmonth endmonth timeutc w))) =
           Suc (length (stdout w))"
proof -
  let ?rq = "product_request e ''DP1.20288.001'' siteid startmonth endmonth"
  let ?w1 = "record_request ?rq w"
  let ?c = "csd_try e savepath siteid startmonth endmonth th tm ?w1"
  let ?l = "case fst ?c of Raised x \<Rightarrow> Error_downloading_data x | Returned \<Rightarrow> Both_products_summarized"
  have a: "waq_try e savepath siteid startmonth endmonth timeutc th tm w = (Returned, ?w1)"
    using assms(2) by (simp add: waq_try_def Let_def)
  have n: "neon_dwnld_sum_daily e savepath siteid startmonth endmonth timeutc w =
      (Returned, print_line ?l (snd ?c))"
    using assms(1) a
    by (cases ?c) (auto simp: neon_dwnld_sum_daily_def split: outcome.splits)
  have c: "?c = (fst ?c, snd ?c)" by simp
  note eff = csd_try_effects [OF c]
  have w1: "stdout ?w1 = stdout w" "requests ?w1 = requests w @ [?rq]" "files ?w1 = files w"
    by (simp_all add: record_request_def)
  have r: "requests (print_line ?l (snd ?c)) =
      requests w @ [?rq, product_request e ''DP4.00130.001'' siteid startmonth endmonth]"
    using eff(2) w1 by (simp add: print_line_def)
  have f1: "files (print_line ?l (snd ?c)) (citation_path savepath siteid ''20288'') =
      files w (citation_path savepath siteid ''20288'')"
    using eff(3) [of "citation_path savepath siteid ''20288''"] paths_differ w1
    by (simp add: print_line_def)
  have f2: "files (print_line ?l (snd ?c)) (daily_path savepath siteid ''20288'') =
      files w (daily_path savepath siteid ''20288'')"
    using eff(3) [of "daily_path savepath siteid ''20288''"] paths_differ w1
    by (simp add: print_line_def)
  have s: "length (stdout (print_line ?l (snd ?c))) = Suc (length (stdout w))"
    using eff(1) w1 by (simp add: print_line_def)
  show ?thesis
    using a n r f1 f2 s by simp
qed

theorem non_mapping_download_witness:
  "parse_timeutc ''16:00'' = Some (16, 0)
   \<and> load_by_product all_writable
       (product_request all_writable ''DP1.20288.001'' ''LEWI'' ''2023-10'' ''2024-09'') = NonDict
   \<and> fst (neon_dwnld_sum_daily all_writable ''out/'' ''LEWI'' ''2023-10'' ''2024-09'' ''16:00''
            empty_world) = Returned
   \<and> map dpid (requests (snd (neon_dwnld_sum_daily all_writable ''out/'' ''LEWI'' ''2023-10''
                                ''2024-09'' ''16:00'' empty_world)))
       = [''DP1.20288.001'', ''DP4.00130.001'']
   \<and> files (snd (neon_dwnld_sum_daily all_writable ''out/'' ''LEWI'' ''2023-10'' ''2024-09''
                   ''16:00'' empty_world)) ''out/LEWI_citation_20288.txt'' = None
   \<and> files (snd (neon_dwnld_sum_daily all_writable ''out/'' ''LEWI'' ''2023-10'' ''2024-09''
                   ''16:00'' empty_world)) ''out/LEWI_daily_20288.csv'' = None
   \<and> stdout (snd (neon_dwnld_sum_daily all_writable ''out/'' ''LEWI'' ''2023-10'' ''2024-09''
                    ''16:00'' empty_world)) = [Both_products_summarized]"
proof -
  have nd: "\<And>rq. load_by_product all_writable rq = NonDict"
    by (simp add: all_writable_def)
  have c: "csd_try all_writable ''out/'' ''LEWI'' ''2023-10'' ''2024-09'' 16 0 w =
      (Returned, record_request (product_request all_writable ''DP4.00130.001'' ''LEWI'' ''2023-10'' ''2024-09'') w)" for w
    by (simp add: csd_try_def Let_def nd)
  note th = non_mapping_download_proceeds_to_discharge [OF parse_16_00 nd,
      where savepath = "''out/''" and w = empty_world]
  show ?thesis
    using th parse_16_00 nd
    by (simp add: c empty_world_def product_request_def citation_path_def daily_path_def
        print_line_def record_request_def)
qed

section \<open>A target time that does not parse (C10)\<close>




section \<open>The driver isolates the sites (C6)\<close>

lemma neon_new_output:
  "\<exists>ls rs. stdout (snd (neon_dwnld_sum_daily e savepath siteid startmonth endmonth timeutc w)) = stdout w @ ls
     \<and> filter driver_line ls = []
     \<and> requests (snd (neon_dwnld_sum_daily e savepath siteid startmonth endmonth timeutc w)) = requests w @ rs
     \<and> filter is_waq rs = waq_requests e (siteid, startmonth, endmonth, timeutc)
     \<and> fst (neon_dwnld_sum_daily e savepath siteid startmonth endmonth timeutc w) =
         (if parse_timeutc timeutc = None then Raised (ValueError timeutc) else Returned)"
proof (cases "parse_timeutc timeutc")
  case None
  then show ?thesis
    by (simp add: neon_dwnld_sum_daily_def waq_requests_def)
next
  case (Some p)
  obtain th tm where p: "p = (th, tm)" by (cases p)
  let ?a = "waq_try e savepath siteid startmonth endmonth timeutc th tm w"
  have a: "?a = (fst ?a, snd ?a)" by simp
  note ea = waq_try_effects [OF a]
  let ?rqa = "product_request e ''DP1.20288.001'' siteid startmonth endmonth"
  let ?rqb = "product_request e ''DP4.00130.001'' siteid startmonth endmonth"
  have wa: "is_waq ?rqa" "\<not> is_waq ?rqb" by (simp_all add: is_waq_def product_request_def)
  have wr: "waq_requests e (siteid, startmonth, endmonth, timeutc) = [?rqa]"
    using Some by (simp add: waq_requests_def)
  show ?thesis
  proof (cases "fst ?a")
    case (Raised x)
    then obtain wa where a': "?a = (Raised x, wa)" by (cases ?a) auto
    note ea' = waq_try_effects [OF a']
    have n: "neon_dwnld_sum_daily e savepath siteid startmonth endmonth timeutc w =
        (Returned, print_line (Error_downloading_data x) wa)"
      using Some p a' by (simp add: neon_dwnld_sum_daily_def)
    have "stdout (print_line (Error_downloading_data x) wa) = stdout w @ [Error_downloading_data x]"
      "requests (print_line (Error_downloading_data x) wa) = requests w @ [?rqa]"
      using ea' by (simp_all add: print_line_def)
    then show ?thesis
      using n Some wa wr by (simp add: driver_line_def)
  next
    case Returned
    then obtain wa where a': "?a = (Returned, wa)" by (cases ?a) auto
    note ea' = waq_try_effects [OF a']
    obtain rb wb where b: "csd_try e savepath siteid startmonth endmonth th tm wa = (rb, wb)"
      by (cases "csd_try e savepath siteid startmonth endmonth th tm wa") auto
    note eb = csd_try_effects [OF b]
    let ?l = "case rb of Raised x \<Rightarrow> Error_downloading_data x | Returned \<Rightarrow> Both_products_summarized"
    have n: "neon_dwnld_sum_daily e savepath siteid startmonth endmonth timeutc w =
        (Returned, print_line ?l wb)"
      using Some p a' b by (cases rb) (simp_all add: neon_dwnld_sum_daily_def)
    have l: "\<not> driver_line ?l" by (cases rb) (simp_all add: driver_line_def)
    have "stdout (print_line ?l wb) = stdout w @ [?l]"
      "requests (print_line ?l wb) = requests w @ [?rqa, ?rqb]"
      using ea' eb by (simp_all add: print_line_def)
    then show ?thesis
      using n Some wa wr l by simp
  qed
qed

lemma process_site_new_output:
  "\<exists>ls rs. stdout (process_site e entry w) = stdout w @ ls \<and> filter driver_line ls = site_lines entry
     \<and> requests (process_site e entry w) = requests w @ rs \<and> filter is_waq rs = waq_requests e entry"
proof -
  obtain siteid startmonth endmonth timeutc where entry: "entry = (siteid, startmonth, endmonth, timeutc)"
    by (cases entry) auto
  let ?w1 = "print_line (Processing_site siteid (startmonth, endmonth, timeutc)) w"
  let ?n = "neon_dwnld_sum_daily e output_dir siteid startmonth endmonth timeutc ?w1"
  obtain ls rs where n: "stdout (snd ?n) = stdout ?w1 @ ls" "filter driver_line ls = []"
    "requests (snd ?n) = requests ?w1 @ rs"
    "filter is_waq rs = waq_requests e (siteid, startmonth, endmonth, timeutc)"
    "fst ?n = (if parse_timeutc timeutc = None then Raised (ValueError timeutc) else Returned)"
    using neon_new_output [of e output_dir siteid startmonth endmonth timeutc ?w1] by blast
  have w1: "stdout ?w1 = stdout w @ [Processing_site siteid (startmonth, endmonth, timeutc)]"
    "requests ?w1 = requests w" by (simp_all add: print_line_def)
  show ?thesis
  proof (cases "parse_timeutc timeutc")
    case None
    then have "process_site e entry w = print_line (Error_processing_site siteid (ValueError timeutc)) (snd ?n)"
      using n(5) entry by (cases ?n) (simp add: process_site_def Let_def)
    then have "stdout (process_site e entry w) =
        stdout w @ (Processing_site siteid (startmonth, endmonth, timeutc) # ls
                      @ [Error_processing_site siteid (ValueError timeutc)])"
      "requests (process_site e entry w) = requests w @ rs"
      using n w1 by (simp_all add: print_line_def)
    moreover have "filter driver_line (Processing_site siteid (startmonth, endmonth, timeutc) # ls
                      @ [Error_processing_site siteid (ValueError timeutc)]) = site_lines entry"
      using n(2) None entry by (simp add: site_lines_def driver_line_def)
    ultimately show ?thesis using n(4) entry by blast
  next
    case (Some p)
    then have "process_site e entry w = snd ?n"
      using n(5) entry by (cases ?n) (simp add: process_site_def Let_def)
    then have "stdout (process_site e entry w) =
        stdout w @ (Processing_site siteid (startmonth, endmonth, timeutc) # ls)"
      "requests (process_site e entry w) = requests w @ rs"
      using n w1 by simp_all
    moreover have "filter driver_line (Processing_site siteid (startmonth, endmonth, timeutc) # ls)
        = site_lines entry"
      using n(2) Some entry by (simp add: site_lines_def driver_line_def)
    ultimately show ?thesis using n(4) entry by blast
  qed
qed

lemma run_sites_new_output:
  "\<exists>ls rs. stdout (run_sites e table w) = stdout w @ ls
     \<and> filter driver_line ls = concat (map site_lines table)
     \<and> requests (run_sites e table w) = requests w @ rs
     \<and> filter is_waq rs = concat (map (waq_requests e) table)"
proof (induction table arbitrary: w)
  case Nil
  then show ?case by simp
next
  case (Cons entry rest)
  obtain ls rs where p: "stdout (process_site e entry w) = stdout w @ ls"
    "filter driver_line ls = site_lines entry"
    "requests (process_site e entry w) = requests w @ rs" "filter is_waq rs = waq_requests e entry"
    using process_site_new_output by blast
  obtain ls' rs' where r: "stdout (run_sites e rest (process_site e entry w)) = stdout (process_site e entry w) @ ls'"
    "filter driver_line ls' = concat (map site_lines rest)"
    "requests (run_sites e rest (process_site e entry w)) = requests (process_site e entry w) @ rs'"
    "filter is_waq rs' = concat (map (waq_requests e) rest)"
    using Cons.IH by blast
  have "stdout (run_sites e (entry # rest) w) = stdout w @ (ls @ ls')"
    "requests (run_sites e (entry # rest) w) = requests w @ (rs @ rs')"
    using p r by simp_all
  moreover have "filter driver_line (ls @ ls') = concat (map site_lines (entry # rest))"
    "filter is_waq (rs @ rs') = concat (map (waq_requests e) (entry # rest))"
    using p r by simp_all
  ultimately show ?case by blast
qed

lemma site_inputs_parse:
  "concat (map site_lines site_inputs) =
     [Processing_site ''LEWI'' (''2023-10'', ''2024-09'', ''16:00''),
      Processing_site ''COMO'' (''2023-10'', ''2024-09'', ''18:00''),
      Processing_site ''LECO'' (''2023-10'', ''2024-09'', ''16:00''),
      Processing_site ''MCRA'' (''2023-10'', ''2024-09'', ''19:00'')]"
  by code_simp

lemma site_inputs_requests:
  "map site (concat (map (waq_requests e) site_inputs)) = [''LEWI'', ''COMO'', ''LECO'', ''MCRA'']"
proof -
  have p: "parse_timeutc ''16:00'' \<noteq> None" "parse_timeutc ''18:00'' \<noteq> None"
    "parse_timeutc ''19:00'' \<noteq> None" by code_simp+
  show ?thesis using p by (simp add: site_inputs_def waq_requests_def product_request_def)
qed

text \<open>
  Claim C6. Whatever the downloads and the file system do, the loop of the driver goes
  through the table in order: for every entry it prints \<open>Processing site\<close>, and when
  the call for that entry raises it prints \<open>Error processing site\<close> and goes on with
  the next entry. For the fixed table of \<open>main\<close> the four sites LEWI, COMO, LECO and
  MCRA are processed in this order, the water-quality product is requested for each,
  and the last line printed is the completion message.
\<close>

theorem driver_processes_every_site_in_order:
  "filter driver_line (drop (length (stdout w)) (stdout (run_sites e table w))) =
     concat (map site_lines table)
   \<and> take (length (stdout w)) (stdout (run_sites e table w)) = stdout w
   \<and> filter is_waq (drop (length (requests w)) (requests (run_sites e table w))) =
       concat (map (waq_requests e) table)
   \<and> stdout (main e w) = stdout (run_sites e site_inputs w) @ [All_sites_processed]
   \<and> filter driver_line (drop (length (stdout w)) (stdout (main e w))) =
       [Processing_site ''LEWI'' (''2023-10'', ''2024-09'', ''16:00''),
        Processing_site ''COMO'' (''2023-10'', ''2024-09'', ''18:00''),
        Processing_site ''LECO'' (''2023-10'', ''2024-09'', ''16:00''),
        Processing_site ''MCRA'' (''2023-10'', ''2024-09'', ''19:00'')]
   \<and> map site (filter is_waq (drop (length (requests w)) (requests (main e w)))) =
       [''LEWI'', ''COMO'', ''LECO'', ''MCRA'']"
proof -
  obtain ls rs where t: "stdout (run_sites e table w) = stdout w @ ls"
    "filter driver_line ls = concat (map site_lines table)"
    "requests (run_sites e table w) = requests w @ rs"
    "filter is_waq rs = concat (map (waq_requests e) table)"
    using run_sites_new_output [of e table w] by blast
  obtain ls' rs' where m: "stdout (run_sites e site_inputs w) = stdout w @ ls'"
    "filter driver_line ls' = concat (map site_lines site_inputs)"
    "requests (run_sites e site_inputs w) = requests w @ rs'"
    "filter is_waq rs' = concat (map (waq_requests e) site_inputs)"
    using run_sites_new_output [of e site_inputs w] by blast
  have c1: "filter driver_line (drop (length (stdout w)) (stdout (run_sites e table w))) =
     concat (map site_lines table)" using t by simp
  have c2: "take (length (stdout w)) (stdout (run_sites e table w)) = stdout w" using t by simp
  have c3: "filter is_waq (drop (length (requests w)) (requests (run_sites e table w))) =
       concat (map (waq_requests e) table)" using t by simp
  have c4: "stdout (main e w) = stdout (run_sites e site_inputs w) @ [All_sites_processed]"
    by (simp add: main_def print_line_def)
  have "drop (length (stdout w)) (stdout (main e w)) = ls' @ [All_sites_processed]"
    using c4 m by simp
  then have c5: "filter driver_line (drop (length (stdout w)) (stdout (main e w))) =
      concat (map site_lines site_inputs)"
    using m by (simp add: driver_line_def)
  have "requests (main e w) = requests w @ rs'"
    using m by (simp add: main_def print_line_def)
  then have c6: "map site (filter is_waq (drop (length (requests w)) (requests (main e w)))) =
      map site (concat (map (waq_requests e) site_inputs))"
    using m by simp
  show ?thesis
    using c1 c2 c3 c4 c5 c6 by (simp only: site_inputs_parse site_inputs_requests simp_thms)
qed

lemma typo_lines:
  "concat (map site_lines sites_with_typo) =
     [Processing_site ''LEWI'' (''2023-10'', ''2024-09'', ''16:00''),
      Processing_site ''COMO'' (''2023-10'', ''2024-09'', ''18h00''),
      Error_processing_site ''COMO'' (ValueError ''18h00''),
      Processing_site ''LECO'' (''2023-10'', ''2024-09'', ''16:00'')]"
  by code_simp

lemma typo_requests:
  "map site (concat (map (waq_requests e) sites_with_typo)) = [''LEWI'', ''LECO'']"
proof -
  have p: "parse_timeutc ''16:00'' \<noteq> None" "parse_timeutc ''18h00'' = None" by code_simp+
  show ?thesis using p by (simp add: sites_with_typo_def waq_requests_def product_request_def)
qed

theorem driver_witness:
  "filter driver_line (stdout (run_sites unwritable_csv sites_with_typo empty_world)) =
     [Processing_site ''LEWI'' (''2023-10'', ''2024-09'', ''16:00''),
      Processing_site ''COMO'' (''2023-10'', ''2024-09'', ''18h00''),
      Error_processing_site ''COMO'' (ValueError ''18h00''),
      Processing_site ''LECO'' (''2023-10'', ''2024-09'', ''16:00'')]
   \<and> map site (filter is_waq (requests (run_sites unwritable_csv sites_with_typo empty_world))) =
       [''LEWI'', ''LECO'']
   \<and> last (stdout (main unwritable_csv empty_world)) = All_sites_processed"
proof -
  note th = driver_processes_every_site_in_order [of empty_world unwritable_csv sites_with_typo]
  have e: "stdout empty_world = []" "requests empty_world = []" by (simp_all add: empty_world_def)
  have a: "filter driver_line (stdout (run_sites unwritable_csv sites_with_typo empty_world)) =
      concat (map site_lines sites_with_typo)"
    using th e by simp
  have b: "map site (filter is_waq (requests (run_sites unwritable_csv sites_with_typo empty_world))) =
      map site (concat (map (waq_requests unwritable_csv) sites_with_typo))"
    using th e by simp
  have c: "last (stdout (main unwritable_csv empty_world)) = All_sites_processed"
    using th by simp
  show ?thesis using a b c by (simp only: typo_lines typo_requests simp_thms)
qed

section \<open>The discharge pipeline (C4)\<close>

lemma set_all_same:
  "list_all (\<lambda>(k, x). k = c \<longrightarrow> x = v) r \<Longrightarrow>
     map (\<lambda>(k, x). if k = c then (k, v) else (k, x)) r = r"
  by (induction r) auto

lemma mapM_id: "(\<And>x. x \<in> set xs \<Longrightarrow> f x = Inr x) \<Longrightarrow> mapM f xs = Inr xs"
  by (induction xs) simp_all

lemma to_datetime_column_id:
  assumes "holds_datetimes c f"
  shows "to_datetime_column e c f = Inr f"
proof -
  have c: "c \<in> set (colnames f)" using assms by (simp add: holds_datetimes_def)
  have "list_all (\<lambda>(k, t). k = c \<longrightarrow> t = Datetime) (columns f)"
    using assms by (simp add: holds_datetimes_def)
  then have cols: "set_dtype c Datetime (columns f) = columns f"
    using c by (simp add: set_dtype_def colnames_def set_all_same)
  have row: "(case to_datetime_cell e (cell_of r c) of Inl x \<Rightarrow> Inl x
               | Inr v \<Rightarrow> Inr (set_cell c v r)) = Inr r" if r: "r \<in> set (rows f)" for r
  proof -
    have h: "c \<in> set (map fst r)"
      "list_all (\<lambda>(k, x). k = c \<longrightarrow>
          x = cell_of r c \<and> (case x of NA \<Rightarrow> True | Time t \<Rightarrow> True | _ \<Rightarrow> False)) r"
      using assms r by (auto simp: holds_datetimes_def list_all_iff)
    from h(1) obtain x where x: "(c, x) \<in> set r" by auto
    with h(2) have v: "x = cell_of r c" "case x of NA \<Rightarrow> True | Time t \<Rightarrow> True | _ \<Rightarrow> False"
      by (auto simp: list_all_iff)
    then have "case cell_of r c of NA \<Rightarrow> True | Time t \<Rightarrow> True | _ \<Rightarrow> False" by simp
    then have conv: "to_datetime_cell e (cell_of r c) = Inr (cell_of r c)"
      by (cases "cell_of r c") (simp_all add: to_datetime_cell_def)
    have "list_all (\<lambda>(k, x). k = c \<longrightarrow> x = cell_of r c) r"
      using h(2) by (auto simp: list_all_iff)
    then have "set_cell c (cell_of r c) r = r"
      using h(1) by (simp add: set_cell_def set_all_same)
    with conv show ?thesis by simp
  qed
  have "mapM (\<lambda>r. case to_datetime_cell e (cell_of r c) of Inl x \<Rightarrow> Inl x
               | Inr v \<Rightarrow> Inr (set_cell c v r)) (rows f) = Inr (rows f)"
    by (rule mapM_id) (rule row)
  then show ?thesis using c cols by (simp add: to_datetime_column_def)
qed

lemma exact_test_iff:
  "exact_test th tm c \<longleftrightarrow> (\<exists>dt. c = Time dt \<and> int (hour dt) = th \<and> int (minute dt) = tm)"
  by (cases c) (simp_all add: exact_test_def)

text \<open>
  Claim C4. In the discharge pipeline a row is kept exactly when the hour and the minute
  of its \<open>endDateTime\<close> are the target's; the kept rows, unchanged and with the columns
  of the table, are written to \<open>{savepath}{siteid}_daily_00130.csv\<close>. A row at 15:59 is
  dropped for the target 16:00, a row at 16:00 is kept.
\<close>

theorem discharge_keeps_exact_target_rows:
  assumes "load_by_product e (product_request e ''DP4.00130.001'' siteid startmonth endmonth) = Bundle data"
    and "lookup_table data ''csd_15_min'' = Inr csd"
    and "holds_datetimes ''endDateTime'' csd"
    and "writable e (savepath @ siteid @ ''_citation_00130.txt'')"
    and "writable e (savepath @ siteid @ ''_daily_00130.csv'')"
  shows "fst (csd_try e savepath siteid startmonth endmonth th tm w) = Returned
       \<and> files (snd (csd_try e savepath siteid startmonth endmonth th tm w))
           (savepath @ siteid @ ''_daily_00130.csv'') =
           Some (Csv (csd\<lparr>rows := filter (\<lambda>r. \<exists>dt. cell_of r ''endDateTime'' = Time dt \<and>
                                           int (hour dt) = th \<and> int (minute dt) = tm) (rows csd)\<rparr>))
       \<and> \<not> exact_test 16 0 (Time (Timestamp y mo d 15 59 s))
       \<and> exact_test 16 0 (Time (Timestamp y mo d 16 0 s))"
proof -
  have f: "csd_filtered e th tm csd =
      Inr (csd\<lparr>rows := filter (\<lambda>r. \<exists>dt. cell_of r ''endDateTime'' = Time dt \<and>
                                           int (hour dt) = th \<and> int (minute dt) = tm) (rows csd)\<rparr>)"
    by (simp add: csd_filtered_def to_datetime_column_id [OF assms(3)] exact_test_iff)
  have "csd_try e savepath siteid startmonth endmonth th tm w =
      (Returned,
       (record_request (product_request e ''DP4.00130.001'' siteid startmonth endmonth) w)
         \<lparr>files := (files w)(savepath @ siteid @ ''_citation_00130.txt'' \<mapsto> Citations (citations_of ''00130'' data),
                    savepath @ siteid @ ''_daily_00130.csv'' \<mapsto>
                      Csv (csd\<lparr>rows := filter (\<lambda>r. \<exists>dt. cell_of r ''endDateTime'' = Time dt \<and>
                                           int (hour dt) = th \<and> int (minute dt) = tm) (rows csd)\<rparr>))\<rparr>)"
    using assms(1,2,4,5) f
    by (simp add: csd_try_def Let_def write_citation_def write_file_def citation_path_def
        daily_path_def record_request_def)
  then show ?thesis by (simp add: exact_test_def)
qed

lemma csd_example_kept:
  "filter (\<lambda>r. exact_test 16 0 (cell_of r ''endDateTime'')) (rows csd_example) =
     [csd_row (Timestamp 2023 10 1 16 0 0) 122, csd_row (Timestamp 2023 10 2 16 0 0) 130]"
  by code_simp

lemma csd_example_datetimes: "holds_datetimes ''endDateTime'' csd_example"
  by code_simp

theorem discharge_witness:
  "load_by_product both_products
      (product_request both_products ''DP4.00130.001'' ''LEWI'' ''2023-10'' ''2024-09'') =
     Bundle [(''csd_15_min'', Table csd_example), (''citation_00130_RELEASE-2026'', Text ''C'')]
   \<and> lookup_table [(''csd_15_min'', Table csd_example), (''citation_00130_RELEASE-2026'', Text ''C'')]
        ''csd_15_min'' = Inr csd_example
   \<and> holds_datetimes ''endDateTime'' csd_example
   \<and> writable both_products (''out/'' @ ''LEWI'' @ ''_citation_00130.txt'')
   \<and> writable both_products (''out/'' @ ''LEWI'' @ ''_daily_00130.csv'')
   \<and> fst (csd_try both_products ''out/'' ''LEWI'' ''2023-10'' ''2024-09'' 16 0 empty_world) = Returned
   \<and> files (snd (csd_try both_products ''out/'' ''LEWI'' ''2023-10'' ''2024-09'' 16 0 empty_world))
        ''out/LEWI_daily_00130.csv'' =
      Some (Csv \<lparr>columns = [(''siteID'', Object), (''endDateTime'', Datetime),
                            (''continuousDischarge'', Number)],
                 rows = [csd_row (Timestamp 2023 10 1 16 0 0) 122,
                         csd_row (Timestamp 2023 10 2 16 0 0) 130]\<rparr>)"
proof -
  have l: "load_by_product both_products
      (product_request both_products ''DP4.00130.001'' ''LEWI'' ''2023-10'' ''2024-09'') =
     Bundle [(''csd_15_min'', Table csd_example), (''citation_00130_RELEASE-2026'', Text ''C'')]"
    by (simp add: both_products_def product_request_def)
  have t: "lookup_table [(''csd_15_min'', Table csd_example), (''citation_00130_RELEASE-2026'', Text ''C'')]
        ''csd_15_min'' = Inr csd_example"
    by (simp add: lookup_table_def)
  have w: "\<And>p. writable both_products p" by (simp add: both_products_def)
  note th = discharge_keeps_exact_target_rows [OF l t csd_example_datetimes w w,
      where th = 16 and tm = 0 and w = empty_world and savepath = "''out/''"]
  have k: "filter (\<lambda>r. \<exists>dt. cell_of r ''endDateTime'' = Time dt \<and> int (hour dt) = 16 \<and> int (minute dt) = 0)
      (rows csd_example) =
      [csd_row (Timestamp 2023 10 1 16 0 0) 122, csd_row (Timestamp 2023 10 2 16 0 0) 130]"
    using csd_example_kept by (simp add: exact_test_iff)
  have c: "columns csd_example = [(''siteID'', Object), (''endDateTime'', Datetime),
                            (''continuousDischarge'', Number)]"
    by (simp add: csd_example_def)
  have "csd_example\<lparr>rows := [csd_row (Timestamp 2023 10 1 16 0 0) 122, csd_row (Timestamp 2023 10 2 16 0 0) 130]\<rparr>
       = \<lparr>columns = [(''siteID'', Object), (''endDateTime'', Datetime), (''continuousDischarge'', Number)],
                 rows = [csd_row (Timestamp 2023 10 1 16 0 0) 122,
                         csd_row (Timestamp 2023 10 2 16 0 0) 130]\<rparr>"
    by (simp add: csd_example_def)
  then show ?thesis
    using th l t csd_example_datetimes w k by simp
qed

section \<open>Parsing the target time\<close>








section \<open>The kept readings and their synthetic date\<close>






lemma mapM_Inr_length: "mapM f xs = Inr ys \<Longrightarrow> length ys = length xs"
  by (induction xs arbitrary: ys) (auto split: sum.splits)

lemma set_set_dtype:
  "set (set_dtype c t cols) =
     (if c \<in> fst ` set cols then (\<lambda>(k, x). if k = c then (k, t) else (k, x)) ` set cols
      else insert (c, t) (set cols))"
  by (simp add: set_dtype_def)



lemma set_dtype_other:
  "c' \<noteq> c \<Longrightarrow> (c', u) \<in> set (set_dtype c t cols) \<longleftrightarrow> (c', u) \<in> set cols"
  by (auto simp: set_set_dtype split: if_splits) force



section \<open>The daily table\<close>









lemma sorted_group_keys: "sorted (map ts_key (group_keys f))"
  by (simp add: group_keys_def)
















section \<open>Daily aggregation (C2)\<close>





section \<open>A day with a single reading (C8)\<close>





end
